theory Spec2Isabelle
  imports Complex_Main
begin

section \<open>HelloTriangle: a shallow embedding of HelloTriangle.cpp\<close>

text \<open>
  The program drives two libraries through their C interfaces: GLFW (window, keyboard,
  clock) and OpenGL (textures, buffers, draw calls). The embedding keeps the state these
  libraries hold on behalf of the program in records, passes it explicitly, and writes
  every function of HelloTriangle.cpp as a HOL function over it. Object names
  (\<open>unsigned int\<close>) are \<open>nat\<close>. The vertex data, of C type \<open>float\<close>, are written as the
  real numbers they are (each is a float exactly); the model does no arithmetic in
  floating point, and where the program does (the transform of a frame) it records the
  input and leaves the result open.
\<close>

subsection \<open>Constants of the program\<close>

definition SCR_WIDTH :: nat where
  "SCR_WIDTH = 800"

definition SCR_HEIGHT :: nat where
  "SCR_HEIGHT = 600"

definition vertexShaderPath :: string where
  "vertexShaderPath = ''./vertexShader.glsl''"

definition fragmentShaderPath :: string where
  "fragmentShaderPath = ''./fragmentShader.glsl''"

text \<open>\<open>sizeof(float)\<close> and \<open>sizeof(int)\<close>: four bytes each, as OpenGL's \<open>GLfloat\<close> and \<open>GLint\<close>.\<close>

definition sizeof_float :: nat where
  "sizeof_float = 4"

definition sizeof_int :: nat where
  "sizeof_int = 4"

subsection \<open>The fixed geometry of \<open>main\<close>\<close>

text \<open>
  The array \<open>vertices\<close> of \<open>main\<close>, flat as the source has it: four rows of five floats,
  three of position followed by two of texture coordinate.
\<close>

definition vertices :: "real list" where
  "vertices =
    [ 1/2,  1/2, 0,   1, 1,
      1/2, -1/2, 0,   1, 0,
     -1/2, -1/2, 0,   0, 0,
     -1/2,  1/2, 0,   0, 1]"

definition indices :: "int list" where
  "indices = [0, 1, 3,
              1, 2, 3]"

definition position_components :: nat where
  "position_components = 3"

definition texcoord_components :: nat where
  "texcoord_components = 2"

definition floats_per_vertex :: nat where
  "floats_per_vertex = position_components + texcoord_components"

definition vertex_count :: nat where
  "vertex_count = length vertices div floats_per_vertex"

definition sizeof_vertices :: nat where
  "sizeof_vertices = length vertices * sizeof_float"

definition sizeof_indices :: nat where
  "sizeof_indices = length indices * sizeof_int"

text \<open>
  Where the texture coordinate of a vertex sits in its row of \<open>vertices\<close>: after the
  position, so at byte \<open>3 * sizeof(float)\<close> of the row.
\<close>

definition texcoord_layout_offset :: nat where
  "texcoord_layout_offset = position_components * sizeof_float"

text \<open>The texture coordinate that row \<open>i\<close> of \<open>vertices\<close> holds.\<close>

definition vertex_texcoord :: "nat \<Rightarrow> real list" where
  "vertex_texcoord i =
     take texcoord_components (drop (i * floats_per_vertex + position_components) vertices)"

text \<open>
  A vertex attribute as \<open>glVertexAttribPointer(index, size, GL_FLOAT, GL_FALSE, stride,
  offset)\<close> declares it; stride and offset are in bytes.
\<close>

record vertex_attrib =
  attrib_index :: nat
  attrib_size :: nat
  attrib_stride :: nat
  attrib_offset :: nat

text \<open>The two declarations of \<open>main\<close>, with the arguments the source passes.\<close>

definition position_attrib :: vertex_attrib where
  "position_attrib =
     \<lparr>attrib_index = 0, attrib_size = 3,
      attrib_stride = 5 * sizeof_float, attrib_offset = 0\<rparr>"

definition texcoord_attrib :: vertex_attrib where
  "texcoord_attrib =
     \<lparr>attrib_index = 1, attrib_size = 2,
      attrib_stride = 5 * sizeof_float, attrib_offset = 6 * sizeof_float\<rparr>"

text \<open>
  What the GPU reads for vertex \<open>i\<close> of an attribute from a buffer of floats: \<open>size\<close>
  floats starting at byte \<open>offset + i * stride\<close>. A read that leaves the buffer has no
  defined value: \<open>None\<close>.
\<close>

definition fetch_attrib :: "real list \<Rightarrow> vertex_attrib \<Rightarrow> nat \<Rightarrow> real list option" where
  "fetch_attrib buf a i =
     (let first = (attrib_offset a + i * attrib_stride a) div sizeof_float
      in if first + attrib_size a \<le> length buf
         then Some (take (attrib_size a) (drop first buf))
         else None)"

subsection \<open>GLFW: the window and its events\<close>

datatype key_action = GLFW_RELEASE | GLFW_PRESS

definition GLFW_KEY_ESCAPE :: int where
  "GLFW_KEY_ESCAPE = 256"

text \<open>The callbacks the program defines: there is one.\<close>

datatype callback = Framebuffer_size_callback

text \<open>
  What GLFW keeps for a window: its size and title, the close-request flag, the last
  state reported for each key, and the framebuffer-size callback when one is installed.
\<close>

record window =
  win_width :: nat
  win_height :: nat
  win_title :: string
  should_close :: bool
  key_state :: "int \<Rightarrow> key_action"
  framebuffer_size_cb :: "callback option"

definition glfwGetKey :: "window \<Rightarrow> int \<Rightarrow> key_action" where
  "glfwGetKey w k = key_state w k"

definition glfwSetWindowShouldClose :: "window \<Rightarrow> bool \<Rightarrow> window" where
  "glfwSetWindowShouldClose w b = w\<lparr>should_close := b\<rparr>"

definition glfwWindowShouldClose :: "window \<Rightarrow> bool" where
  "glfwWindowShouldClose w = should_close w"

definition processInput :: "window \<Rightarrow> window" where
  "processInput w =
     (if glfwGetKey w GLFW_KEY_ESCAPE = GLFW_PRESS
      then glfwSetWindowShouldClose w True
      else w)"

subsection \<open>OpenGL and the rest of the machine\<close>

datatype tex_pname =
  GL_TEXTURE_WRAP_S | GL_TEXTURE_WRAP_T | GL_TEXTURE_MIN_FILTER | GL_TEXTURE_MAG_FILTER

datatype tex_pvalue = GL_REPEAT | GL_LINEAR_MIPMAP_LINEAR | GL_LINEAR

datatype pixel_format = GL_RGB | GL_RGBA

datatype buffer_target = GL_ARRAY_BUFFER | GL_ELEMENT_ARRAY_BUFFER

text \<open>What \<open>stbi_load\<close> returns when it decodes a file: the pixels and the metadata.\<close>

record image =
  img_width :: int
  img_height :: int
  img_channels :: int
  img_pixels :: "nat list"

text \<open>
  The level-0 image of a texture as \<open>glTexImage2D\<close> defines it: the internal format the
  texture stores, its size, and the layout in which the pixel data was handed over.
\<close>

record tex_image =
  internal_format :: pixel_format
  tex_width :: int
  tex_height :: int
  source_format :: pixel_format
  source_pixels :: "nat list"

text \<open>
  A texture object: the parameters set on it with \<open>glTexParameteri\<close>, its image when one
  was uploaded, and whether its mipmaps were generated.
\<close>

record texture_object =
  tex_params :: "tex_pname \<Rightarrow> tex_pvalue option"
  tex_level0 :: "tex_image option"
  mipmaps_generated :: bool

definition fresh_texture :: texture_object where
  "fresh_texture = \<lparr>tex_params = (\<lambda>_. None), tex_level0 = None, mipmaps_generated = False\<rparr>"

text \<open>
  Modelled from the spec: the class \<open>Shader\<close> of \<open>Shader.h\<close> is not among the sources.
  The specification describes it as the shader program, which "compiles/links
  vertex+fragment shader source and exposes uniform-setting operations". Its constructor
  and the three methods that \<open>main\<close> and \<open>renderLoop\<close> call are recorded as calls, with
  their arguments. The constructor creates the shader program (\<open>Shader_constructor\<close>
  below); what the three methods do to the GPU is left open.
\<close>

datatype shader_call =
    Shader_construct string string
  | Shader_use
  | Shader_setInt string int
  | Shader_getID

text \<open>
  The GL calls of the program, with the arguments that vary, and its calls to the shader
  object. The matrix that \<open>glUniformMatrix4fv\<close> uploads is computed by GLM in 32-bit
  floating point from the one value that \<open>glfwGetTime()\<close> returned in that frame (lines
  105 to 107: the identity, translated by (0.5, -0.5, 0), rotated about the Z axis by
  that time cast to \<open>float\<close>); the call is recorded with that time, and the entries of
  the matrix are not computed.
\<close>

datatype gl_call =
    GenTextures nat
  | ActiveTexture int
  | BindTexture nat
  | TexParameteri tex_pname tex_pvalue
  | TexImage2D pixel_format int int pixel_format
  | GenerateMipmap
  | GenVertexArrays nat
  | GenBuffers nat
  | BindVertexArray nat
  | BindBuffer buffer_target nat
  | BufferData buffer_target nat
  | VertexAttribPointer vertex_attrib
  | EnableVertexAttribArray nat
  | DeleteVertexArrays nat
  | DeleteBuffers nat
  | Viewport int int int int
  | ClearColor
  | Clear
  | GetUniformLocation string
  | UniformMatrix4fv real
  | DrawElements nat
  | Shader_call shader_call

text \<open>
  The objects of the GL context that the program has: textures, vertex arrays and
  buffers, each under its name, and the one shader program.
\<close>

datatype gpu_object = Texture nat | Vertex_array nat | Buffer nat | Shader_program

text \<open>
  The state outside the program's own variables: the calls made so far (oldest first),
  the GL names handed out, the objects created in the context and the objects released
  (each list in the order of the events), the texture state of the context, the
  viewport, the flip-on-load flag of stb_image, the two output streams, and whether GLFW
  was terminated. Names are handed out in order from 1; 0 is GL's name for no object.
  Every call is taken to be accepted: GL's error conditions are not modelled, and the
  program never asks for them.
\<close>

record machine =
  calls :: "gl_call list"
  next_texture :: nat
  next_vertex_array :: nat
  next_buffer :: nat
  created :: "gpu_object list"
  released :: "gpu_object list"
  active_texture :: int
  texture_binding_2d :: "int \<Rightarrow> nat"
  texture_objects :: "nat \<Rightarrow> texture_object"
  viewport :: "int \<times> int \<times> int \<times> int"
  flip_vertically_on_load :: bool
  cout :: "string list"
  cerr :: "string list"
  glfw_terminated :: bool

definition initial_machine :: machine where
  "initial_machine =
     \<lparr>calls = [], next_texture = 1, next_vertex_array = 1, next_buffer = 1,
      created = [], released = [],
      active_texture = 0, texture_binding_2d = (\<lambda>_. 0),
      texture_objects = (\<lambda>_. fresh_texture), viewport = (0, 0, 0, 0),
      flip_vertically_on_load = False, cout = [], cerr = [], glfw_terminated = False\<rparr>"

definition emit :: "gl_call \<Rightarrow> machine \<Rightarrow> machine" where
  "emit c s = s\<lparr>calls := calls s @ [c]\<rparr>"

text \<open>The objects that exist: created and not released.\<close>

definition live_objects :: "machine \<Rightarrow> gpu_object list" where
  "live_objects s = filter (\<lambda>x. x \<notin> set (released s)) (created s)"

definition create_object :: "gpu_object \<Rightarrow> machine \<Rightarrow> machine" where
  "create_object x s = s\<lparr>created := created s @ [x]\<rparr>"

text \<open>
  A \<open>glDelete\<close> call releases the object of that name when it exists; GL ignores a name
  that stands for no object.
\<close>

definition release_object :: "gpu_object \<Rightarrow> machine \<Rightarrow> machine" where
  "release_object x s =
     (if x \<in> set (live_objects s) then s\<lparr>released := released s @ [x]\<rparr> else s)"

text \<open>The texture bound to \<open>GL_TEXTURE_2D\<close> on the active unit.\<close>

definition bound_texture :: "machine \<Rightarrow> nat" where
  "bound_texture s = texture_binding_2d s (active_texture s)"

definition update_bound_texture :: "(texture_object \<Rightarrow> texture_object) \<Rightarrow> machine \<Rightarrow> machine" where
  "update_bound_texture f s =
     s\<lparr>texture_objects := (texture_objects s)(bound_texture s := f (texture_objects s (bound_texture s)))\<rparr>"

definition glGenTextures :: "machine \<Rightarrow> nat \<times> machine" where
  "glGenTextures s =
     (next_texture s,
      emit (GenTextures (next_texture s))
        (create_object (Texture (next_texture s)) (s\<lparr>next_texture := Suc (next_texture s)\<rparr>)))"

definition glGenVertexArrays :: "machine \<Rightarrow> nat \<times> machine" where
  "glGenVertexArrays s =
     (next_vertex_array s,
      emit (GenVertexArrays (next_vertex_array s))
        (create_object (Vertex_array (next_vertex_array s))
           (s\<lparr>next_vertex_array := Suc (next_vertex_array s)\<rparr>)))"

definition glGenBuffers :: "machine \<Rightarrow> nat \<times> machine" where
  "glGenBuffers s =
     (next_buffer s,
      emit (GenBuffers (next_buffer s))
        (create_object (Buffer (next_buffer s)) (s\<lparr>next_buffer := Suc (next_buffer s)\<rparr>)))"

definition glDeleteVertexArrays :: "nat \<Rightarrow> machine \<Rightarrow> machine" where
  "glDeleteVertexArrays n s = emit (DeleteVertexArrays n) (release_object (Vertex_array n) s)"

definition glDeleteBuffers :: "nat \<Rightarrow> machine \<Rightarrow> machine" where
  "glDeleteBuffers n s = emit (DeleteBuffers n) (release_object (Buffer n) s)"

text \<open>\<open>glActiveTexture(GL_TEXTURE0 + n)\<close>: the argument here is \<open>n\<close>.\<close>

definition glActiveTexture :: "int \<Rightarrow> machine \<Rightarrow> machine" where
  "glActiveTexture n s = emit (ActiveTexture n) (s\<lparr>active_texture := n\<rparr>)"

text \<open>\<open>glBindTexture(GL_TEXTURE_2D, t)\<close>.\<close>

definition glBindTexture :: "nat \<Rightarrow> machine \<Rightarrow> machine" where
  "glBindTexture t s =
     emit (BindTexture t) (s\<lparr>texture_binding_2d := (texture_binding_2d s)(active_texture s := t)\<rparr>)"

text \<open>\<open>glTexParameteri(GL_TEXTURE_2D, pname, v)\<close>.\<close>

definition glTexParameteri :: "tex_pname \<Rightarrow> tex_pvalue \<Rightarrow> machine \<Rightarrow> machine" where
  "glTexParameteri pname v s =
     emit (TexParameteri pname v)
       (update_bound_texture (\<lambda>t. t\<lparr>tex_params := (tex_params t)(pname \<mapsto> v)\<rparr>) s)"

text \<open>\<open>glTexImage2D(GL_TEXTURE_2D, 0, internal, width, height, 0, format, GL_UNSIGNED_BYTE, data)\<close>.\<close>

definition glTexImage2D :: "pixel_format \<Rightarrow> int \<Rightarrow> int \<Rightarrow> pixel_format \<Rightarrow> nat list \<Rightarrow> machine \<Rightarrow> machine" where
  "glTexImage2D internal width height format pixels s =
     emit (TexImage2D internal width height format)
       (update_bound_texture
          (\<lambda>t. t\<lparr>tex_level0 := Some \<lparr>internal_format = internal, tex_width = width,
                   tex_height = height, source_format = format, source_pixels = pixels\<rparr>\<rparr>) s)"

text \<open>\<open>glGenerateMipmap(GL_TEXTURE_2D)\<close>.\<close>

definition glGenerateMipmap :: "machine \<Rightarrow> machine" where
  "glGenerateMipmap s =
     emit GenerateMipmap (update_bound_texture (\<lambda>t. t\<lparr>mipmaps_generated := True\<rparr>) s)"

definition glViewport :: "int \<Rightarrow> int \<Rightarrow> int \<Rightarrow> int \<Rightarrow> machine \<Rightarrow> machine" where
  "glViewport x y width height s = emit (Viewport x y width height) (s\<lparr>viewport := (x, y, width, height)\<rparr>)"

definition stbi_set_flip_vertically_on_load :: "bool \<Rightarrow> machine \<Rightarrow> machine" where
  "stbi_set_flip_vertically_on_load b s = s\<lparr>flip_vertically_on_load := b\<rparr>"

definition print_cout :: "string \<Rightarrow> machine \<Rightarrow> machine" where
  "print_cout msg s = s\<lparr>cout := cout s @ [msg]\<rparr>"

definition print_cerr :: "string \<Rightarrow> machine \<Rightarrow> machine" where
  "print_cerr msg s = s\<lparr>cerr := cerr s @ [msg]\<rparr>"

text \<open>
  \<open>glfwTerminate\<close> destroys the windows that remain, and with a window its GL context
  and every object that still exists in it.
\<close>

definition glfwTerminate :: "machine \<Rightarrow> machine" where
  "glfwTerminate s = s\<lparr>released := released s @ live_objects s, glfw_terminated := True\<rparr>"

text \<open>
  Modelled from the spec: the constructor of \<open>Shader\<close> (\<open>Shader.h\<close> is not among the
  sources) "compiles/links vertex+fragment shader source", so when it returns the
  shader program is an object of the context. The call is recorded with its two paths.
\<close>

definition Shader_constructor :: "string \<Rightarrow> string \<Rightarrow> machine \<Rightarrow> machine" where
  "Shader_constructor vertexPath fragmentPath s =
     emit (Shader_call (Shader_construct vertexPath fragmentPath)) (create_object Shader_program s)"

subsection \<open>The surroundings of a run\<close>

text \<open>
  What a run of the program does not decide itself: whether \<open>glfwCreateWindow\<close> can
  create the window, whether \<open>gladLoadGLLoader\<close> finds the GL functions, and what
  \<open>stbi_load\<close> makes of a path under the current flip-on-load flag (\<open>None\<close> when the file
  cannot be decoded). A window that is created has the size and the title asked for,
  no key pressed, no close request and no callback.
\<close>

record surroundings =
  window_creatable :: bool
  loader_ok :: bool
  decode_file :: "bool \<Rightarrow> string \<Rightarrow> image option"

definition stbi_load :: "surroundings \<Rightarrow> string \<Rightarrow> machine \<Rightarrow> image option" where
  "stbi_load env path s = decode_file env (flip_vertically_on_load s) path"

definition glfwCreateWindow :: "surroundings \<Rightarrow> nat \<Rightarrow> nat \<Rightarrow> string \<Rightarrow> window option" where
  "glfwCreateWindow env width height title =
     (if window_creatable env
      then Some \<lparr>win_width = width, win_height = height, win_title = title,
                 should_close = False, key_state = (\<lambda>_. GLFW_RELEASE),
                 framebuffer_size_cb = None\<rparr>
      else None)"

definition gladLoadGLLoader :: "surroundings \<Rightarrow> bool" where
  "gladLoadGLLoader env = loader_ok env"

definition glfwSetFramebufferSizeCallback :: "window \<Rightarrow> callback \<Rightarrow> window" where
  "glfwSetFramebufferSizeCallback w cb = w\<lparr>framebuffer_size_cb := Some cb\<rparr>"

text \<open>
  The events \<open>glfwPollEvents\<close> delivers: a key changes state, the user or the system asks
  to close the window, the framebuffer is resized.
\<close>

datatype event = Key_event int key_action | Close_request | Framebuffer_resize int int

text \<open>
  One turn of the loop sees the clock once (\<open>glfwGetTime\<close>) and, at its end, the events
  that arrived (\<open>glfwPollEvents\<close>).
\<close>

record frame =
  frame_time :: real
  frame_events :: "event list"

subsection \<open>The functions of HelloTriangle.cpp\<close>

definition framebuffer_size_callback :: "window \<Rightarrow> int \<Rightarrow> int \<Rightarrow> machine \<Rightarrow> machine" where
  "framebuffer_size_callback w width height s = glViewport 0 0 width height s"

text \<open>
  \<open>initlializeGLFW\<close> returns the window handle, \<open>None\<close> for \<open>nullptr\<close>. The result of
  \<open>glfwInit\<close> is not looked at by the source (when it fails the window cannot be
  created); the three window hints select OpenGL 3.3, core profile, and
  \<open>glfwMakeContextCurrent\<close> makes the context of the window current: they change
  nothing the model keeps.
\<close>

definition initlializeGLFW :: "surroundings \<Rightarrow> machine \<Rightarrow> window option \<times> machine" where
  "initlializeGLFW env s =
     (case glfwCreateWindow env SCR_WIDTH SCR_HEIGHT ''LearnOpenGL'' of
        None \<Rightarrow> (None, glfwTerminate (print_cerr ''Failed to create GLFW window'' s))
      | Some window \<Rightarrow>
          let window = glfwSetFramebufferSizeCallback window Framebuffer_size_callback
          in if \<not> gladLoadGLLoader env
             then (None, print_cerr ''failed to initialize GLAD'' s)
             else (Some window, s))"

text \<open>
  \<open>generateTexture(texture, textureLoc, textureNum, hasAlpha)\<close>: the name written to
  \<open>texture\<close> is returned with the machine. \<open>stbi_image_free\<close> gives back the memory
  of the decoded pixels and changes nothing the model keeps.
\<close>

definition generateTexture ::
  "surroundings \<Rightarrow> string \<Rightarrow> int \<Rightarrow> bool \<Rightarrow> machine \<Rightarrow> nat \<times> machine" where
  "generateTexture env textureLoc textureNum hasAlpha s0 =
     (let (texture, s) = glGenTextures s0;
          s = glActiveTexture textureNum s;
          s = glBindTexture texture s;
          s = glTexParameteri GL_TEXTURE_WRAP_S GL_REPEAT s;
          s = glTexParameteri GL_TEXTURE_WRAP_T GL_REPEAT s;
          s = glTexParameteri GL_TEXTURE_MIN_FILTER GL_LINEAR_MIPMAP_LINEAR s;
          s = glTexParameteri GL_TEXTURE_MAG_FILTER GL_LINEAR s;
          s = (if hasAlpha then stbi_set_flip_vertically_on_load True s else s);
          s = (case stbi_load env textureLoc s of
                 Some data \<Rightarrow>
                   glGenerateMipmap
                     (if hasAlpha
                      then glTexImage2D GL_RGB (img_width data) (img_height data) GL_RGBA
                             (img_pixels data) s
                      else glTexImage2D GL_RGB (img_width data) (img_height data) GL_RGB
                             (img_pixels data) s)
               | None \<Rightarrow> print_cout ''Failed to load texture'' s);
          s = glBindTexture 0 s
      in (texture, s))"

text \<open>
  \<open>glfwPollEvents\<close> handles the pending events in order. A key event updates the key's
  state; a close request sets the close flag; a resize calls the framebuffer-size
  callback when one is installed.
\<close>

fun dispatch_event :: "event \<Rightarrow> window \<times> machine \<Rightarrow> window \<times> machine" where
  "dispatch_event (Key_event k a) (w, s) = (w\<lparr>key_state := (key_state w)(k := a)\<rparr>, s)"
| "dispatch_event Close_request (w, s) = (w\<lparr>should_close := True\<rparr>, s)"
| "dispatch_event (Framebuffer_resize width height) (w, s) =
     (case framebuffer_size_cb w of
        Some Framebuffer_size_callback \<Rightarrow> (w, framebuffer_size_callback w width height s)
      | None \<Rightarrow> (w, s))"

definition glfwPollEvents :: "event list \<Rightarrow> window \<Rightarrow> machine \<Rightarrow> window \<times> machine" where
  "glfwPollEvents evs w s = fold dispatch_event evs (w, s)"

text \<open>
  The body of the \<open>while\<close> loop of \<open>renderLoop\<close>, for one frame. The transform of
  lines 105 to 107 is a floating-point computation on the value of \<open>glfwGetTime()\<close>; its
  upload is recorded with that value. \<open>glfwSwapBuffers\<close> presents the frame and changes
  nothing the model keeps.
\<close>

definition frame_body :: "window \<Rightarrow> machine \<Rightarrow> frame \<Rightarrow> window \<times> machine" where
  "frame_body window s0 f =
     (let window = processInput window;
          s = emit ClearColor s0;
          s = emit Clear s;
          s = emit (UniformMatrix4fv (frame_time f)) s;
          s = emit (DrawElements 6) s
      in glfwPollEvents (frame_events f) window s)"

text \<open>
  The \<open>while\<close> loop itself, over the frames still to come. It leaves when it finds the
  close flag set. \<open>None\<close>: the frames are used up and the loop is still running.
\<close>

fun render_frames :: "window \<Rightarrow> machine \<Rightarrow> frame list \<Rightarrow> (window \<times> machine) option" where
  "render_frames window s [] = (if glfwWindowShouldClose window then Some (window, s) else None)"
| "render_frames window s (f # fs) =
     (if glfwWindowShouldClose window then Some (window, s)
      else case frame_body window s f of (window', s') \<Rightarrow> render_frames window' s' fs)"

text \<open>
  How a run can break: GL and GLFW used although \<open>initlializeGLFW\<close> returned \<open>nullptr\<close>
  (the GL function pointers were never loaded, the handle is null), and a read of
  \<open>textures[0]\<close> from an array with no element.
\<close>

datatype fault = No_context | Invalid_read

definition renderLoop ::
  "window \<Rightarrow> nat \<Rightarrow> nat list \<Rightarrow> frame list \<Rightarrow> machine \<Rightarrow> (fault + window \<times> machine) option" where
  "renderLoop window VAO textures frames s0 =
     (case textures of
        [] \<Rightarrow> Some (Inl Invalid_read)
      | texture0 # _ \<Rightarrow>
          let s = emit (Shader_call Shader_use) s0;
              s = emit (Shader_call (Shader_setInt ''texture1'' 0)) s;
              s = glActiveTexture 0 s;
              s = glBindTexture texture0 s;
              s = emit (BindVertexArray VAO) s;
              s = emit (Shader_call Shader_getID) s;
              s = emit (GetUniformLocation ''transform'') s
          in map_option Inr (render_frames window s frames))"

text \<open>The local variables of \<open>main\<close> when it calls \<open>renderLoop\<close>, and the machine then.\<close>

record main_locals =
  l_window :: window
  l_textures :: "nat list"
  l_VAO :: nat
  l_VBO :: nat
  l_EBO :: nat
  l_machine :: machine

text \<open>\<open>main\<close> up to the call of \<open>renderLoop\<close>.\<close>

definition main_setup :: "surroundings \<Rightarrow> fault + main_locals" where
  "main_setup env =
     (case initlializeGLFW env initial_machine of
        (None, s) \<Rightarrow> Inl No_context
      | (Some window, s0) \<Rightarrow>
          let s = Shader_constructor vertexShaderPath fragmentShaderPath s0;
              (texture1, s) = generateTexture env ''./notAbee.jpg'' 0 False s;
              textures = [texture1];
              (VAO, s) = glGenVertexArrays s;
              (VBO, s) = glGenBuffers s;
              (EBO, s) = glGenBuffers s;
              s = emit (BindVertexArray VAO) s;
              s = emit (BindBuffer GL_ARRAY_BUFFER VBO) s;
              s = emit (BufferData GL_ARRAY_BUFFER sizeof_vertices) s;
              s = emit (BindBuffer GL_ELEMENT_ARRAY_BUFFER EBO) s;
              s = emit (BufferData GL_ELEMENT_ARRAY_BUFFER sizeof_indices) s;
              s = emit (VertexAttribPointer position_attrib) s;
              s = emit (EnableVertexAttribArray 0) s;
              s = emit (VertexAttribPointer texcoord_attrib) s;
              s = emit (EnableVertexAttribArray 1) s;
              s = emit (BindBuffer GL_ARRAY_BUFFER 0) s;
              s = emit (BindVertexArray 0) s
          in Inr \<lparr>l_window = window, l_textures = textures, l_VAO = VAO, l_VBO = VBO,
                  l_EBO = EBO, l_machine = s\<rparr>)"

text \<open>
  \<open>main\<close> after \<open>renderLoop\<close> has returned. The object \<open>shader\<close> goes out of scope at
  the \<open>return\<close>, after \<open>glfwTerminate\<close>: the context and its shader program are gone by
  then.
\<close>

definition main_teardown :: "main_locals \<Rightarrow> machine \<Rightarrow> int \<times> machine" where
  "main_teardown l s0 =
     (let s = glDeleteVertexArrays (l_VAO l) s0;
          s = glDeleteBuffers (l_VBO l) s;
          s = glfwTerminate s
      in (0, s))"

text \<open>
  The whole of \<open>main\<close>, for given surroundings and frames: the exit code and the final
  machine, a fault, or \<open>None\<close> when the loop is still running as the frames end.
\<close>

definition main :: "surroundings \<Rightarrow> frame list \<Rightarrow> (fault + int \<times> machine) option" where
  "main env frames =
     (case main_setup env of
        Inl e \<Rightarrow> Some (Inl e)
      | Inr l \<Rightarrow>
          (case renderLoop (l_window l) (l_VAO l) (l_textures l) frames (l_machine l) of
             None \<Rightarrow> None
           | Some (Inl e) \<Rightarrow> Some (Inl e)
           | Some (Inr (window, s)) \<Rightarrow> Some (Inr (main_teardown l s))))"

subsection \<open>Reading a run\<close>

text \<open>Whether a run returned from \<open>main\<close>.\<close>

fun returned :: "(fault + int \<times> machine) option \<Rightarrow> bool" where
  "returned (Some (Inr _)) = True"
| "returned _ = False"

text \<open>Sample surroundings and frames, for running the definitions on.\<close>

definition no_image :: "bool \<Rightarrow> string \<Rightarrow> image option" where
  "no_image flip path = None"

definition sample_image :: image where
  "sample_image = \<lparr>img_width = 2, img_height = 1, img_channels = 4,
     img_pixels = [255, 0, 0, 255, 0, 255, 0, 128]\<rparr>"

definition one_image :: "bool \<Rightarrow> string \<Rightarrow> image option" where
  "one_image flip path = Some sample_image"

definition missing_file_env :: surroundings where
  "missing_file_env = \<lparr>window_creatable = True, loader_ok = True, decode_file = no_image\<rparr>"

definition good_env :: surroundings where
  "good_env = \<lparr>window_creatable = True, loader_ok = True, decode_file = one_image\<rparr>"

definition no_window_env :: surroundings where
  "no_window_env = \<lparr>window_creatable = False, loader_ok = True, decode_file = one_image\<rparr>"

definition no_loader_env :: surroundings where
  "no_loader_env = \<lparr>window_creatable = True, loader_ok = False, decode_file = one_image\<rparr>"

definition closing_frame :: frame where
  "closing_frame = \<lparr>frame_time = 0, frame_events = [Close_request]\<rparr>"

definition escape_frame :: frame where
  "escape_frame = \<lparr>frame_time = 0, frame_events = [Key_event GLFW_KEY_ESCAPE GLFW_PRESS]\<rparr>"

definition idle_window :: window where
  "idle_window = \<lparr>win_width = SCR_WIDTH, win_height = SCR_HEIGHT, win_title = ''LearnOpenGL'',
     should_close = False, key_state = (\<lambda>_. GLFW_RELEASE),
     framebuffer_size_cb = Some Framebuffer_size_callback\<rparr>"

definition escape_window :: window where
  "escape_window = idle_window\<lparr>key_state := (key_state idle_window)(GLFW_KEY_ESCAPE := GLFW_PRESS)\<rparr>"

section \<open>Properties\<close>

subsection \<open>What each call changes\<close>


lemma emit_fields [simp]:
  "calls (emit c s) = calls s @ [c]"
  "next_texture (emit c s) = next_texture s"
  "next_vertex_array (emit c s) = next_vertex_array s"
  "next_buffer (emit c s) = next_buffer s"
  "created (emit c s) = created s"
  "released (emit c s) = released s"
  "active_texture (emit c s) = active_texture s"
  "texture_binding_2d (emit c s) = texture_binding_2d s"
  "texture_objects (emit c s) = texture_objects s"
  "viewport (emit c s) = viewport s"
  "flip_vertically_on_load (emit c s) = flip_vertically_on_load s"
  "cout (emit c s) = cout s"
  "cerr (emit c s) = cerr s"
  "glfw_terminated (emit c s) = glfw_terminated s"
  by (simp_all add: emit_def)

lemma create_object_fields [simp]:
  "calls (create_object x s) = calls s"
  "next_texture (create_object x s) = next_texture s"
  "next_vertex_array (create_object x s) = next_vertex_array s"
  "next_buffer (create_object x s) = next_buffer s"
  "created (create_object x s) = created s @ [x]"
  "released (create_object x s) = released s"
  "active_texture (create_object x s) = active_texture s"
  "texture_binding_2d (create_object x s) = texture_binding_2d s"
  "texture_objects (create_object x s) = texture_objects s"
  "viewport (create_object x s) = viewport s"
  "flip_vertically_on_load (create_object x s) = flip_vertically_on_load s"
  "cout (create_object x s) = cout s"
  "cerr (create_object x s) = cerr s"
  "glfw_terminated (create_object x s) = glfw_terminated s"
  by (simp_all add: create_object_def)

lemma glGenTextures_fields [simp]:
  "fst (glGenTextures s) = next_texture s"
  "calls (snd (glGenTextures s)) = calls s @ [GenTextures (next_texture s)]"
  "next_texture (snd (glGenTextures s)) = Suc (next_texture s)"
  "active_texture (snd (glGenTextures s)) = active_texture s"
  "texture_binding_2d (snd (glGenTextures s)) = texture_binding_2d s"
  "texture_objects (snd (glGenTextures s)) = texture_objects s"
  "flip_vertically_on_load (snd (glGenTextures s)) = flip_vertically_on_load s"
  "cout (snd (glGenTextures s)) = cout s"
  "created (snd (glGenTextures s)) = created s @ [Texture (next_texture s)]"
  "released (snd (glGenTextures s)) = released s"
  by (simp_all add: glGenTextures_def)

lemma glActiveTexture_fields [simp]:
  "calls (glActiveTexture n s) = calls s @ [ActiveTexture n]"
  "next_texture (glActiveTexture n s) = next_texture s"
  "active_texture (glActiveTexture n s) = n"
  "texture_binding_2d (glActiveTexture n s) = texture_binding_2d s"
  "texture_objects (glActiveTexture n s) = texture_objects s"
  "flip_vertically_on_load (glActiveTexture n s) = flip_vertically_on_load s"
  "cout (glActiveTexture n s) = cout s"
  by (simp_all add: glActiveTexture_def)

lemma glBindTexture_fields [simp]:
  "calls (glBindTexture t s) = calls s @ [BindTexture t]"
  "next_texture (glBindTexture t s) = next_texture s"
  "active_texture (glBindTexture t s) = active_texture s"
  "texture_binding_2d (glBindTexture t s) = (texture_binding_2d s)(active_texture s := t)"
  "texture_objects (glBindTexture t s) = texture_objects s"
  "flip_vertically_on_load (glBindTexture t s) = flip_vertically_on_load s"
  "cout (glBindTexture t s) = cout s"
  by (simp_all add: glBindTexture_def)

lemma update_bound_texture_fields [simp]:
  "calls (update_bound_texture f s) = calls s"
  "next_texture (update_bound_texture f s) = next_texture s"
  "active_texture (update_bound_texture f s) = active_texture s"
  "texture_binding_2d (update_bound_texture f s) = texture_binding_2d s"
  "texture_objects (update_bound_texture f s) =
     (texture_objects s)(bound_texture s := f (texture_objects s (bound_texture s)))"
  "flip_vertically_on_load (update_bound_texture f s) = flip_vertically_on_load s"
  "cout (update_bound_texture f s) = cout s"
  by (simp_all add: update_bound_texture_def)


lemma bound_texture_simps [simp]:
  "bound_texture (emit c s) = bound_texture s"
  "bound_texture (update_bound_texture f s) = bound_texture s"
  "bound_texture (glBindTexture t s) = t"
  "bound_texture (create_object x s) = bound_texture s"
  by (simp_all add: bound_texture_def)

lemma update_bound_texture_other [simp]:
  "next_vertex_array (update_bound_texture f s) = next_vertex_array s"
  "next_buffer (update_bound_texture f s) = next_buffer s"
  "cerr (update_bound_texture f s) = cerr s"
  by (simp_all add: update_bound_texture_def)

lemma glTexParameteri_fields [simp]:
  "calls (glTexParameteri p v s) = calls s @ [TexParameteri p v]"
  "bound_texture (glTexParameteri p v s) = bound_texture s"
  "active_texture (glTexParameteri p v s) = active_texture s"
  "texture_binding_2d (glTexParameteri p v s) = texture_binding_2d s"
  "texture_objects (glTexParameteri p v s) =
     (texture_objects s)(bound_texture s :=
        (texture_objects s (bound_texture s))\<lparr>tex_params := (tex_params (texture_objects s (bound_texture s)))(p \<mapsto> v)\<rparr>)"
  "flip_vertically_on_load (glTexParameteri p v s) = flip_vertically_on_load s"
  "cout (glTexParameteri p v s) = cout s"
  "next_texture (glTexParameteri p v s) = next_texture s"
  "next_vertex_array (glTexParameteri p v s) = next_vertex_array s"
  "next_buffer (glTexParameteri p v s) = next_buffer s"
  by (simp_all add: glTexParameteri_def)

lemma glTexImage2D_fields [simp]:
  "calls (glTexImage2D i w h f px s) = calls s @ [TexImage2D i w h f]"
  "bound_texture (glTexImage2D i w h f px s) = bound_texture s"
  "active_texture (glTexImage2D i w h f px s) = active_texture s"
  "texture_binding_2d (glTexImage2D i w h f px s) = texture_binding_2d s"
  "texture_objects (glTexImage2D i w h f px s) =
     (texture_objects s)(bound_texture s :=
        (texture_objects s (bound_texture s))\<lparr>tex_level0 :=
           Some \<lparr>internal_format = i, tex_width = w, tex_height = h, source_format = f,
                 source_pixels = px\<rparr>\<rparr>)"
  "flip_vertically_on_load (glTexImage2D i w h f px s) = flip_vertically_on_load s"
  "cout (glTexImage2D i w h f px s) = cout s"
  "next_texture (glTexImage2D i w h f px s) = next_texture s"
  "next_vertex_array (glTexImage2D i w h f px s) = next_vertex_array s"
  "next_buffer (glTexImage2D i w h f px s) = next_buffer s"
  by (simp_all add: glTexImage2D_def)

lemma glGenerateMipmap_fields [simp]:
  "calls (glGenerateMipmap s) = calls s @ [GenerateMipmap]"
  "bound_texture (glGenerateMipmap s) = bound_texture s"
  "active_texture (glGenerateMipmap s) = active_texture s"
  "texture_binding_2d (glGenerateMipmap s) = texture_binding_2d s"
  "texture_objects (glGenerateMipmap s) =
     (texture_objects s)(bound_texture s :=
        (texture_objects s (bound_texture s))\<lparr>mipmaps_generated := True\<rparr>)"
  "flip_vertically_on_load (glGenerateMipmap s) = flip_vertically_on_load s"
  "cout (glGenerateMipmap s) = cout s"
  "next_texture (glGenerateMipmap s) = next_texture s"
  "next_vertex_array (glGenerateMipmap s) = next_vertex_array s"
  "next_buffer (glGenerateMipmap s) = next_buffer s"
  by (simp_all add: glGenerateMipmap_def)

lemma stbi_flip_fields [simp]:
  "calls (stbi_set_flip_vertically_on_load b s) = calls s"
  "bound_texture (stbi_set_flip_vertically_on_load b s) = bound_texture s"
  "active_texture (stbi_set_flip_vertically_on_load b s) = active_texture s"
  "texture_binding_2d (stbi_set_flip_vertically_on_load b s) = texture_binding_2d s"
  "texture_objects (stbi_set_flip_vertically_on_load b s) = texture_objects s"
  "flip_vertically_on_load (stbi_set_flip_vertically_on_load b s) = b"
  "cout (stbi_set_flip_vertically_on_load b s) = cout s"
  "next_texture (stbi_set_flip_vertically_on_load b s) = next_texture s"
  "next_vertex_array (stbi_set_flip_vertically_on_load b s) = next_vertex_array s"
  "next_buffer (stbi_set_flip_vertically_on_load b s) = next_buffer s"
  by (simp_all add: stbi_set_flip_vertically_on_load_def bound_texture_def)

lemma print_cout_fields [simp]:
  "calls (print_cout m s) = calls s"
  "bound_texture (print_cout m s) = bound_texture s"
  "active_texture (print_cout m s) = active_texture s"
  "texture_binding_2d (print_cout m s) = texture_binding_2d s"
  "texture_objects (print_cout m s) = texture_objects s"
  "flip_vertically_on_load (print_cout m s) = flip_vertically_on_load s"
  "cout (print_cout m s) = cout s @ [m]"
  "next_texture (print_cout m s) = next_texture s"
  "next_vertex_array (print_cout m s) = next_vertex_array s"
  "next_buffer (print_cout m s) = next_buffer s"
  by (simp_all add: print_cout_def bound_texture_def)

lemma more_fields [simp]:
  "next_vertex_array (snd (glGenTextures s)) = next_vertex_array s"
  "next_buffer (snd (glGenTextures s)) = next_buffer s"
  "next_vertex_array (glActiveTexture n s) = next_vertex_array s"
  "next_buffer (glActiveTexture n s) = next_buffer s"
  "next_vertex_array (glBindTexture t s) = next_vertex_array s"
  "next_buffer (glBindTexture t s) = next_buffer s"
  by (simp_all add: glGenTextures_def glActiveTexture_def glBindTexture_def)

lemma glGenVertexArrays_fields [simp]:
  "fst (glGenVertexArrays s) = next_vertex_array s"
  "calls (snd (glGenVertexArrays s)) = calls s @ [GenVertexArrays (next_vertex_array s)]"
  "next_vertex_array (snd (glGenVertexArrays s)) = Suc (next_vertex_array s)"
  "next_buffer (snd (glGenVertexArrays s)) = next_buffer s"
  "next_texture (snd (glGenVertexArrays s)) = next_texture s"
  "created (snd (glGenVertexArrays s)) = created s @ [Vertex_array (next_vertex_array s)]"
  "released (snd (glGenVertexArrays s)) = released s"
  by (simp_all add: glGenVertexArrays_def)

lemma glGenBuffers_fields [simp]:
  "fst (glGenBuffers s) = next_buffer s"
  "calls (snd (glGenBuffers s)) = calls s @ [GenBuffers (next_buffer s)]"
  "next_buffer (snd (glGenBuffers s)) = Suc (next_buffer s)"
  "next_vertex_array (snd (glGenBuffers s)) = next_vertex_array s"
  "next_texture (snd (glGenBuffers s)) = next_texture s"
  "created (snd (glGenBuffers s)) = created s @ [Buffer (next_buffer s)]"
  "released (snd (glGenBuffers s)) = released s"
  by (simp_all add: glGenBuffers_def)

lemma glfwTerminate_fields [simp]:
  "calls (glfwTerminate s) = calls s"
  "created (glfwTerminate s) = created s"
  "released (glfwTerminate s) = released s @ live_objects s"
  by (simp_all add: glfwTerminate_def)

lemma release_object_fields [simp]:
  "calls (release_object x s) = calls s"
  "created (release_object x s) = created s"
  "released (release_object x s) =
     (if x \<in> set (live_objects s) then released s @ [x] else released s)"
  by (simp_all add: release_object_def)

lemma glDelete_fields [simp]:
  "created (glDeleteVertexArrays n s) = created s"
  "released (glDeleteVertexArrays n s) =
     (if Vertex_array n \<in> set (live_objects s) then released s @ [Vertex_array n] else released s)"
  "created (glDeleteBuffers n s) = created s"
  "released (glDeleteBuffers n s) =
     (if Buffer n \<in> set (live_objects s) then released s @ [Buffer n] else released s)"
  by (simp_all add: glDeleteVertexArrays_def glDeleteBuffers_def)

lemma objects_kept [simp]:
  "created (glActiveTexture n s) = created s"
  "released (glActiveTexture n s) = released s"
  "created (glBindTexture t s) = created s"
  "released (glBindTexture t s) = released s"
  "created (update_bound_texture f s) = created s"
  "released (update_bound_texture f s) = released s"
  "created (glTexParameteri pn v s) = created s"
  "released (glTexParameteri pn v s) = released s"
  "created (glTexImage2D i w h fm px s) = created s"
  "released (glTexImage2D i w h fm px s) = released s"
  "created (glGenerateMipmap s) = created s"
  "released (glGenerateMipmap s) = released s"
  "created (glViewport x y w h s) = created s"
  "released (glViewport x y w h s) = released s"
  "created (stbi_set_flip_vertically_on_load b s) = created s"
  "released (stbi_set_flip_vertically_on_load b s) = released s"
  "created (print_cout msg s) = created s"
  "released (print_cout msg s) = released s"
  by (simp_all add: glActiveTexture_def glBindTexture_def update_bound_texture_def
      glTexParameteri_def glTexImage2D_def glGenerateMipmap_def glViewport_def
      stbi_set_flip_vertically_on_load_def print_cout_def)

lemma Shader_constructor_fields [simp]:
  "created (Shader_constructor v f s) = created s @ [Shader_program]"
  "released (Shader_constructor v f s) = released s"
  "next_texture (Shader_constructor v f s) = next_texture s"
  "next_vertex_array (Shader_constructor v f s) = next_vertex_array s"
  "next_buffer (Shader_constructor v f s) = next_buffer s"
  by (simp_all add: Shader_constructor_def)

lemma glViewport_calls [simp]: "calls (glViewport x y w h s) = calls s @ [Viewport x y w h]"
  by (simp add: glViewport_def)

subsection \<open>\<open>generateTexture\<close>, field by field\<close>

lemma generateTexture_name: "fst (generateTexture env textureLoc textureNum hasAlpha s) = next_texture s"
  by (simp add: generateTexture_def Let_def split_def)

lemma generateTexture_calls:
  "calls (snd (generateTexture env textureLoc textureNum hasAlpha s)) =
     calls s @
     [GenTextures (next_texture s), ActiveTexture textureNum, BindTexture (next_texture s),
      TexParameteri GL_TEXTURE_WRAP_S GL_REPEAT, TexParameteri GL_TEXTURE_WRAP_T GL_REPEAT,
      TexParameteri GL_TEXTURE_MIN_FILTER GL_LINEAR_MIPMAP_LINEAR,
      TexParameteri GL_TEXTURE_MAG_FILTER GL_LINEAR] @
     (case decode_file env (hasAlpha \<or> flip_vertically_on_load s) textureLoc of
        Some data \<Rightarrow>
          [TexImage2D GL_RGB (img_width data) (img_height data) (if hasAlpha then GL_RGBA else GL_RGB),
           GenerateMipmap]
      | None \<Rightarrow> []) @
     [BindTexture 0]"
  by (cases hasAlpha) (simp_all add: generateTexture_def Let_def split_def stbi_load_def split: option.splits)


lemma generateTexture_params:
  "tex_params (texture_objects (snd (generateTexture env textureLoc textureNum hasAlpha s)) (next_texture s)) =
     (tex_params (texture_objects s (next_texture s)))
       (GL_TEXTURE_WRAP_S \<mapsto> GL_REPEAT, GL_TEXTURE_WRAP_T \<mapsto> GL_REPEAT,
        GL_TEXTURE_MIN_FILTER \<mapsto> GL_LINEAR_MIPMAP_LINEAR, GL_TEXTURE_MAG_FILTER \<mapsto> GL_LINEAR)"
  by (cases hasAlpha) (simp_all add: generateTexture_def Let_def split_def stbi_load_def split: option.splits)

lemma generateTexture_binding:
  "texture_binding_2d (snd (generateTexture env textureLoc textureNum hasAlpha s)) =
     (texture_binding_2d s)(textureNum := 0)"
  "active_texture (snd (generateTexture env textureLoc textureNum hasAlpha s)) = textureNum"
  by (cases hasAlpha; simp add: generateTexture_def Let_def split_def stbi_load_def split: option.splits)+

lemma generateTexture_on_failure:
  assumes "decode_file env (hasAlpha \<or> flip_vertically_on_load s) textureLoc = None"
  shows "cout (snd (generateTexture env textureLoc textureNum hasAlpha s)) = cout s @ [''Failed to load texture'']"
    and "tex_level0 (texture_objects (snd (generateTexture env textureLoc textureNum hasAlpha s)) t) = tex_level0 (texture_objects s t)"
    and "mipmaps_generated (texture_objects (snd (generateTexture env textureLoc textureNum hasAlpha s)) t) = mipmaps_generated (texture_objects s t)"
  using assms by (cases hasAlpha; simp add: generateTexture_def Let_def split_def stbi_load_def split: option.splits)+

lemma generateTexture_on_success:
  assumes "decode_file env (hasAlpha \<or> flip_vertically_on_load s) textureLoc = Some data"
  shows "cout (snd (generateTexture env textureLoc textureNum hasAlpha s)) = cout s"
    and "tex_level0 (texture_objects (snd (generateTexture env textureLoc textureNum hasAlpha s)) (next_texture s)) =
       Some \<lparr>internal_format = GL_RGB, tex_width = img_width data, tex_height = img_height data,
             source_format = (if hasAlpha then GL_RGBA else GL_RGB), source_pixels = img_pixels data\<rparr>"
    and "mipmaps_generated (texture_objects (snd (generateTexture env textureLoc textureNum hasAlpha s)) (next_texture s))"
    and "flip_vertically_on_load (snd (generateTexture env textureLoc textureNum hasAlpha s)) = (hasAlpha \<or> flip_vertically_on_load s)"
  using assms by (cases hasAlpha; simp add: generateTexture_def Let_def split_def stbi_load_def split: option.splits)+

lemma generateTexture_counters:
  "next_vertex_array (snd (generateTexture env textureLoc textureNum hasAlpha s)) = next_vertex_array s"
  "next_buffer (snd (generateTexture env textureLoc textureNum hasAlpha s)) = next_buffer s"
  "created (snd (generateTexture env textureLoc textureNum hasAlpha s)) = created s @ [Texture (next_texture s)]"
  "released (snd (generateTexture env textureLoc textureNum hasAlpha s)) = released s"
  by (cases hasAlpha; simp add: generateTexture_def Let_def split_def stbi_load_def split: option.splits)+

subsection \<open>The close flag through the loop\<close>

lemma processInput_cases:
  "processInput w = (if key_state w GLFW_KEY_ESCAPE = GLFW_PRESS then w\<lparr>should_close := True\<rparr> else w)"
  by (simp add: processInput_def glfwGetKey_def glfwSetWindowShouldClose_def)

lemma dispatch_event_keeps_flag:
  "should_close (fst p) \<Longrightarrow> should_close (fst (dispatch_event e p))"
  by (cases e; cases p) (auto split: option.splits callback.splits)

lemma glfwPollEvents_keeps_flag:
  "should_close w \<Longrightarrow> should_close (fst (glfwPollEvents evs w s))"
proof -
  have "should_close (fst p) \<Longrightarrow> should_close (fst (fold dispatch_event evs p))" for p
    by (induction evs arbitrary: p) (simp_all add: dispatch_event_keeps_flag)
  then show "should_close w \<Longrightarrow> should_close (fst (glfwPollEvents evs w s))"
    by (simp add: glfwPollEvents_def)
qed

lemma frame_body_keeps_flag:
  "should_close w \<Longrightarrow> should_close (fst (frame_body w s f))"
  by (simp add: frame_body_def Let_def glfwPollEvents_keeps_flag processInput_cases)

lemma render_frames_exit:
  "render_frames w s fs = Some (w', s') \<Longrightarrow> should_close w'"
proof (induction fs arbitrary: w s)
  case Nil
  then show ?case by (auto simp: glfwWindowShouldClose_def split: if_splits)
next
  case (Cons f fs)
  show ?case
  proof (cases "should_close w")
    case True
    with Cons.prems show ?thesis by (simp add: glfwWindowShouldClose_def)
  next
    case False
    obtain w1 s1 where fb: "frame_body w s f = (w1, s1)" by (cases "frame_body w s f")
    with False Cons.prems have "render_frames w1 s1 fs = Some (w', s')"
      by (simp add: glfwWindowShouldClose_def)
    then show ?thesis by (rule Cons.IH)
  qed
qed

lemma render_frames_closed:
  "should_close w \<Longrightarrow> render_frames w s fs = Some (w, s)"
  by (cases fs) (simp_all add: glfwWindowShouldClose_def)

subsection \<open>The objects of a run\<close>

lemma initlializeGLFW_ok:
  "window_creatable env \<Longrightarrow> loader_ok env \<Longrightarrow> initlializeGLFW env s = (Some idle_window, s)"
  by (simp add: initlializeGLFW_def glfwCreateWindow_def gladLoadGLLoader_def
      glfwSetFramebufferSizeCallback_def idle_window_def Let_def)

lemma initlializeGLFW_None:
  "\<not> (window_creatable env \<and> loader_ok env) \<Longrightarrow> fst (initlializeGLFW env s) = None"
  by (auto simp: initlializeGLFW_def glfwCreateWindow_def gladLoadGLLoader_def Let_def)

lemma main_setup_fault:
  "\<not> (window_creatable env \<and> loader_ok env) \<Longrightarrow> main_setup env = Inl No_context"
  using initlializeGLFW_None [of env initial_machine]
  by (cases "initlializeGLFW env initial_machine") (simp add: main_setup_def)

text \<open>The variables of \<open>main\<close> and the objects of the context when \<open>renderLoop\<close> is called.\<close>

lemma main_setup_ok:
  assumes "window_creatable env" "loader_ok env"
  shows "\<exists>m. main_setup env =
           Inr \<lparr>l_window = idle_window, l_textures = [1], l_VAO = 1, l_VBO = 1, l_EBO = 2,
                l_machine = m\<rparr>
         \<and> created m = [Shader_program, Texture 1, Vertex_array 1, Buffer 1, Buffer 2]
         \<and> released m = []"
proof -
  have i: "next_texture initial_machine = 1" "next_vertex_array initial_machine = 1"
    "next_buffer initial_machine = 1" "created initial_machine = []"
    "released initial_machine = []"
    by (simp_all add: initial_machine_def)
  show ?thesis
    by (simp add: main_setup_def initlializeGLFW_ok [OF assms] Let_def split_def
        generateTexture_name generateTexture_counters i)
qed

lemma dispatch_event_objects:
  "created (snd (dispatch_event e p)) = created (snd p)"
  "released (snd (dispatch_event e p)) = released (snd p)"
  by (cases e; cases p; simp add: framebuffer_size_callback_def split: option.splits callback.splits)+

lemma glfwPollEvents_objects:
  "created (snd (glfwPollEvents evs w s)) = created s"
  "released (snd (glfwPollEvents evs w s)) = released s"
proof -
  have "created (snd (fold dispatch_event evs p)) = created (snd p)
      \<and> released (snd (fold dispatch_event evs p)) = released (snd p)" for p
    by (induction evs arbitrary: p) (simp_all add: dispatch_event_objects)
  from this [of "(w, s)"]
  show "created (snd (glfwPollEvents evs w s)) = created s"
    and "released (snd (glfwPollEvents evs w s)) = released s"
    by (simp_all add: glfwPollEvents_def)
qed

lemma frame_body_objects:
  "created (snd (frame_body w s f)) = created s"
  "released (snd (frame_body w s f)) = released s"
  by (simp_all add: frame_body_def Let_def glfwPollEvents_objects)

lemma render_frames_objects:
  "render_frames w s fs = Some (w', s') \<Longrightarrow> created s' = created s \<and> released s' = released s"
proof (induction fs arbitrary: w s)
  case Nil
  then show ?case by (auto split: if_splits)
next
  case (Cons f fs)
  show ?case
  proof (cases "glfwWindowShouldClose w")
    case True
    with Cons.prems show ?thesis by auto
  next
    case False
    obtain w1 s1 where fb: "frame_body w s f = (w1, s1)" by (cases "frame_body w s f")
    with False Cons.prems have r: "render_frames w1 s1 fs = Some (w', s')" by simp
    have "created s1 = created s" "released s1 = released s"
      using frame_body_objects [of w s f] fb by simp_all
    with Cons.IH [OF r] show ?thesis by simp
  qed
qed

lemma renderLoop_objects:
  assumes "renderLoop w VAO textures frames s = Some (Inr (w', s'))"
  shows "created s' = created s" and "released s' = released s"
proof -
  have "created s' = created s \<and> released s' = released s"
  proof (cases textures)
    case Nil
    with assms show ?thesis by (simp add: renderLoop_def)
  next
    case (Cons texture0 rest)
    let ?s = "emit (GetUniformLocation ''transform'') (emit (Shader_call Shader_getID)
        (emit (BindVertexArray VAO) (glBindTexture texture0 (glActiveTexture 0
          (emit (Shader_call (Shader_setInt ''texture1'' 0)) (emit (Shader_call Shader_use) s))))))"
    from assms Cons have r: "render_frames w ?s frames = Some (w', s')"
      by (auto simp: renderLoop_def Let_def)
    from render_frames_objects [OF r] show ?thesis by simp
  qed
  then show "created s' = created s" and "released s' = released s" by simp_all
qed

lemma returned_main:
  assumes "returned (main env frames)"
  shows "window_creatable env \<and> loader_ok env"
    and "\<exists>l w sl. main_setup env = Inr l
          \<and> renderLoop (l_window l) (l_VAO l) (l_textures l) frames (l_machine l) = Some (Inr (w, sl))
          \<and> main env frames = Some (Inr (main_teardown l sl))"
proof -
  show "window_creatable env \<and> loader_ok env"
  proof (rule ccontr)
    assume "\<not> (window_creatable env \<and> loader_ok env)"
    then have "main env frames = Some (Inl No_context)"
      by (simp add: main_def main_setup_fault)
    with assms show False by simp
  qed
  show "\<exists>l w sl. main_setup env = Inr l
          \<and> renderLoop (l_window l) (l_VAO l) (l_textures l) frames (l_machine l) = Some (Inr (w, sl))
          \<and> main env frames = Some (Inr (main_teardown l sl))"
    using assms by (auto simp: main_def split: sum.splits option.splits)
qed

text \<open>The teardown of \<open>main\<close>, from a context that holds the five objects.\<close>

lemma main_teardown_objects:
  assumes "created s = [Shader_program, Texture 1, Vertex_array 1, Buffer 1, Buffer 2]"
    and "released s = []" and "l_VAO l = 1" and "l_VBO l = 1"
  shows "fst (main_teardown l s) = 0"
    and "created (snd (main_teardown l s)) = created s"
    and "released (snd (main_teardown l s)) =
      [Vertex_array 1, Buffer 1, Shader_program, Texture 1, Buffer 2]"
    and "live_objects (snd (main_teardown l s)) = []"
  using assms by (simp_all add: main_teardown_def Let_def live_objects_def)

lemma render_frames_closing_frame:
  assumes "\<not> should_close w" "key_state w GLFW_KEY_ESCAPE \<noteq> GLFW_PRESS"
  shows "render_frames w s [closing_frame] =
     Some (w\<lparr>should_close := True\<rparr>,
           emit (DrawElements 6) (emit (UniformMatrix4fv 0) (emit Clear (emit ClearColor s))))"
  using assms
  by (simp add: glfwWindowShouldClose_def frame_body_def Let_def closing_frame_def
      glfwPollEvents_def processInput_cases)

text \<open>A run that returns: the window is created, and closed in the first frame.\<close>

lemma sample_run_returns: "returned (main good_env [closing_frame])"
proof -
  have e: "window_creatable good_env" "loader_ok good_env"
    by (simp_all add: good_env_def)
  obtain m where m: "main_setup good_env =
           Inr \<lparr>l_window = idle_window, l_textures = [1], l_VAO = 1, l_VBO = 1, l_EBO = 2,
                l_machine = m\<rparr>"
    using main_setup_ok [OF e] by blast
  have w: "\<not> should_close idle_window" "key_state idle_window GLFW_KEY_ESCAPE \<noteq> GLFW_PRESS"
    by (simp_all add: idle_window_def)
  let ?entry = "emit (GetUniformLocation ''transform'') (emit (Shader_call Shader_getID)
      (emit (BindVertexArray 1) (glBindTexture 1 (glActiveTexture 0
        (emit (Shader_call (Shader_setInt ''texture1'' 0)) (emit (Shader_call Shader_use) m))))))"
  have r: "renderLoop idle_window 1 [1] [closing_frame] m =
      Some (Inr (idle_window\<lparr>should_close := True\<rparr>,
        emit (DrawElements 6) (emit (UniformMatrix4fv 0) (emit Clear (emit ClearColor ?entry)))))"
    by (simp add: renderLoop_def Let_def render_frames_closing_frame [OF w]
        del: render_frames.simps)
  show ?thesis
    using r by (simp add: main_def m main_teardown_def)
qed

subsection \<open>The texture loader\<close>

text \<open>
  C8. Every call of \<open>generateTexture\<close>, whatever the decoder then returns, sets on the
  texture it creates the wrap mode repeat on the S and on the T axis, the minification
  filter linear-mipmap-linear and the magnification filter linear: the four
  \<open>glTexParameteri\<close> calls follow the binding of the new texture directly, before the
  file is decoded, and the parameters are on the texture when the call returns.
\<close>

theorem generateTexture_sets_parameters:
  "let (texture, s') = generateTexture env textureLoc textureNum hasAlpha s in
     tex_params (texture_objects s' texture) GL_TEXTURE_WRAP_S = Some GL_REPEAT
   \<and> tex_params (texture_objects s' texture) GL_TEXTURE_WRAP_T = Some GL_REPEAT
   \<and> tex_params (texture_objects s' texture) GL_TEXTURE_MIN_FILTER = Some GL_LINEAR_MIPMAP_LINEAR
   \<and> tex_params (texture_objects s' texture) GL_TEXTURE_MAG_FILTER = Some GL_LINEAR
   \<and> take 7 (drop (length (calls s)) (calls s')) =
       [GenTextures texture, ActiveTexture textureNum, BindTexture texture,
        TexParameteri GL_TEXTURE_WRAP_S GL_REPEAT, TexParameteri GL_TEXTURE_WRAP_T GL_REPEAT,
        TexParameteri GL_TEXTURE_MIN_FILTER GL_LINEAR_MIPMAP_LINEAR,
        TexParameteri GL_TEXTURE_MAG_FILTER GL_LINEAR]"
  by (simp add: split_def generateTexture_name generateTexture_params generateTexture_calls)

text \<open>
  C2, as stated, fails: with a file that cannot be decoded, the texture created (name 1)
  is not bound when \<open>generateTexture\<close> returns; the binding of the selected unit is 0.
\<close>

theorem generateTexture_failed_decode_counterexample:
  "stbi_load missing_file_env ''./notAbee.jpg'' initial_machine = None
   \<and> fst (generateTexture missing_file_env ''./notAbee.jpg'' 0 False initial_machine) = 1
   \<and> bound_texture (snd (generateTexture missing_file_env ''./notAbee.jpg'' 0 False initial_machine)) = 0
   \<and> bound_texture (snd (generateTexture missing_file_env ''./notAbee.jpg'' 0 False initial_machine))
       \<noteq> fst (generateTexture missing_file_env ''./notAbee.jpg'' 0 False initial_machine)"
  by (simp add: stbi_load_def missing_file_env_def no_image_def generateTexture_name
      bound_texture_def generateTexture_binding initial_machine_def)

text \<open>
  C2, amended. For every call of \<open>generateTexture\<close> in which the decode fails: the
  failure is logged (one line on standard output), the call returns normally, no image
  is uploaded (the call sequence has no \<open>glTexImage2D\<close>, and the image of every texture
  object is what it was), the selected texture unit stays active, and at the end of the
  call the texture is unbound again: the 2D binding of that unit is 0. The decoder runs
  with flip-on-load set when the alpha flag is set, and as it was before otherwise; the
  hypothesis is that it returns nothing then.
\<close>

theorem generateTexture_failed_decode:
  assumes "decode_file env (hasAlpha \<or> flip_vertically_on_load s) textureLoc = None"
  shows "let (texture, s') = generateTexture env textureLoc textureNum hasAlpha s in
           cout s' = cout s @ [''Failed to load texture'']
         \<and> calls s' = calls s @
             [GenTextures texture, ActiveTexture textureNum, BindTexture texture,
              TexParameteri GL_TEXTURE_WRAP_S GL_REPEAT, TexParameteri GL_TEXTURE_WRAP_T GL_REPEAT,
              TexParameteri GL_TEXTURE_MIN_FILTER GL_LINEAR_MIPMAP_LINEAR,
              TexParameteri GL_TEXTURE_MAG_FILTER GL_LINEAR, BindTexture 0]
         \<and> tex_level0 (texture_objects s' t) = tex_level0 (texture_objects s t)
         \<and> active_texture s' = textureNum
         \<and> bound_texture s' = 0"
  using assms
  by (simp add: split_def generateTexture_name generateTexture_calls generateTexture_on_failure
      generateTexture_binding bound_texture_def)

text \<open>The amended C2 at a missing file, from the initial machine.\<close>

theorem generateTexture_failed_decode_witness:
  "decode_file missing_file_env (False \<or> flip_vertically_on_load initial_machine) ''./notAbee.jpg'' = None
   \<and> (let (texture, s') = generateTexture missing_file_env ''./notAbee.jpg'' 0 False initial_machine in
           cout s' = cout initial_machine @ [''Failed to load texture'']
         \<and> calls s' = calls initial_machine @
             [GenTextures texture, ActiveTexture 0, BindTexture texture,
              TexParameteri GL_TEXTURE_WRAP_S GL_REPEAT, TexParameteri GL_TEXTURE_WRAP_T GL_REPEAT,
              TexParameteri GL_TEXTURE_MIN_FILTER GL_LINEAR_MIPMAP_LINEAR,
              TexParameteri GL_TEXTURE_MAG_FILTER GL_LINEAR, BindTexture 0]
         \<and> tex_level0 (texture_objects s' 1) = tex_level0 (texture_objects initial_machine 1)
         \<and> active_texture s' = 0
         \<and> bound_texture s' = 0)"
proof -
  have h: "decode_file missing_file_env (False \<or> flip_vertically_on_load initial_machine) ''./notAbee.jpg'' = None"
    by (simp add: missing_file_env_def no_image_def)
  from generateTexture_failed_decode [OF h, where textureNum = 0 and t = 1] h
  show ?thesis by blast
qed

text \<open>
  C6, as stated, fails: with the alpha flag set and a file that decodes, the texture is
  not an RGBA texture; its internal format is \<open>GL_RGB\<close>.
\<close>

theorem generateTexture_alpha_counterexample:
  "stbi_load good_env ''./awesomeface.png'' (stbi_set_flip_vertically_on_load True initial_machine)
     = Some sample_image
   \<and> map_option internal_format
       (tex_level0 (texture_objects (snd (generateTexture good_env ''./awesomeface.png'' 0 True initial_machine))
          (fst (generateTexture good_env ''./awesomeface.png'' 0 True initial_machine)))) = Some GL_RGB
   \<and> map_option internal_format
       (tex_level0 (texture_objects (snd (generateTexture good_env ''./awesomeface.png'' 0 True initial_machine))
          (fst (generateTexture good_env ''./awesomeface.png'' 0 True initial_machine)))) \<noteq> Some GL_RGBA"
proof -
  have h: "decode_file good_env (True \<or> flip_vertically_on_load initial_machine) ''./awesomeface.png'' = Some sample_image"
    by (simp add: good_env_def one_image_def)
  show ?thesis
    using h by (simp add: generateTexture_name generateTexture_on_success(2) [OF h] stbi_load_def)
qed

text \<open>
  C6, amended. For every call of \<open>generateTexture\<close> in which the decode succeeds: with
  the alpha flag set, the file is decoded with flip-on-load switched on and its pixels
  are handed over in RGBA layout; with the flag clear, in RGB layout (and flip-on-load
  is left as it was); in both cases the texture stores the image with internal format
  RGB, and the mipmaps are generated right after the upload. The hypothesis is that the
  decoder, run under that flip-on-load flag, returns the image \<open>data\<close>.
\<close>

theorem generateTexture_decoded_upload:
  assumes "decode_file env (hasAlpha \<or> flip_vertically_on_load s) textureLoc = Some data"
  shows "let (texture, s') = generateTexture env textureLoc textureNum hasAlpha s in
           flip_vertically_on_load s' = (hasAlpha \<or> flip_vertically_on_load s)
         \<and> tex_level0 (texture_objects s' texture) =
             Some \<lparr>internal_format = GL_RGB, tex_width = img_width data, tex_height = img_height data,
                   source_format = (if hasAlpha then GL_RGBA else GL_RGB),
                   source_pixels = img_pixels data\<rparr>
         \<and> mipmaps_generated (texture_objects s' texture)
         \<and> drop (length (calls s) + 7) (calls s') =
             [TexImage2D GL_RGB (img_width data) (img_height data) (if hasAlpha then GL_RGBA else GL_RGB),
              GenerateMipmap, BindTexture 0]
         \<and> cout s' = cout s"
  using assms
  by (simp add: split_def generateTexture_name generateTexture_calls generateTexture_on_success)

text \<open>The amended C6 with and without the alpha flag, on a file that decodes.\<close>

theorem generateTexture_decoded_upload_witness:
  "decode_file good_env (True \<or> flip_vertically_on_load initial_machine) ''./awesomeface.png'' = Some sample_image
   \<and> (let (texture, s') = generateTexture good_env ''./awesomeface.png'' 0 True initial_machine in
           flip_vertically_on_load s' = (True \<or> flip_vertically_on_load initial_machine)
         \<and> tex_level0 (texture_objects s' texture) =
             Some \<lparr>internal_format = GL_RGB, tex_width = img_width sample_image,
                   tex_height = img_height sample_image,
                   source_format = (if True then GL_RGBA else GL_RGB),
                   source_pixels = img_pixels sample_image\<rparr>
         \<and> mipmaps_generated (texture_objects s' texture)
         \<and> drop (length (calls initial_machine) + 7) (calls s') =
             [TexImage2D GL_RGB (img_width sample_image) (img_height sample_image)
                (if True then GL_RGBA else GL_RGB),
              GenerateMipmap, BindTexture 0]
         \<and> cout s' = cout initial_machine)
   \<and> decode_file good_env (False \<or> flip_vertically_on_load initial_machine) ''./notAbee.jpg'' = Some sample_image
   \<and> (let (texture, s') = generateTexture good_env ''./notAbee.jpg'' 0 False initial_machine in
           flip_vertically_on_load s' = (False \<or> flip_vertically_on_load initial_machine)
         \<and> tex_level0 (texture_objects s' texture) =
             Some \<lparr>internal_format = GL_RGB, tex_width = img_width sample_image,
                   tex_height = img_height sample_image,
                   source_format = (if False then GL_RGBA else GL_RGB),
                   source_pixels = img_pixels sample_image\<rparr>
         \<and> mipmaps_generated (texture_objects s' texture)
         \<and> drop (length (calls initial_machine) + 7) (calls s') =
             [TexImage2D GL_RGB (img_width sample_image) (img_height sample_image)
                (if False then GL_RGBA else GL_RGB),
              GenerateMipmap, BindTexture 0]
         \<and> cout s' = cout initial_machine)"
proof -
  have h1: "decode_file good_env (True \<or> flip_vertically_on_load initial_machine) ''./awesomeface.png'' = Some sample_image"
    by (simp add: good_env_def one_image_def)
  have h2: "decode_file good_env (False \<or> flip_vertically_on_load initial_machine) ''./notAbee.jpg'' = Some sample_image"
    by (simp add: good_env_def one_image_def)
  from generateTexture_decoded_upload [OF h1, where textureNum = 0]
    generateTexture_decoded_upload [OF h2, where textureNum = 0] h1 h2
  show ?thesis by blast
qed

subsection \<open>Input and the close flag\<close>

text \<open>
  C7. For every call of \<open>processInput\<close>: if the escape key is seen pressed, the close
  flag of the window is true afterwards; if no key is pressed and the flag is false, it
  is false afterwards; and whenever escape is not pressed the window is left exactly as
  it was, so the flag is unchanged.
\<close>

theorem processInput_close_flag:
  "(glfwGetKey w GLFW_KEY_ESCAPE = GLFW_PRESS \<longrightarrow> should_close (processInput w))
   \<and> ((\<forall>k. glfwGetKey w k \<noteq> GLFW_PRESS) \<and> \<not> should_close w \<longrightarrow> \<not> should_close (processInput w))
   \<and> (glfwGetKey w GLFW_KEY_ESCAPE \<noteq> GLFW_PRESS \<longrightarrow> processInput w = w)"
  by (simp add: processInput_def glfwGetKey_def glfwSetWindowShouldClose_def)

text \<open>C7 on a window with escape held down, and on a window with no key pressed.\<close>

theorem processInput_close_flag_witness:
  "glfwGetKey escape_window GLFW_KEY_ESCAPE = GLFW_PRESS
   \<and> \<not> should_close escape_window
   \<and> should_close (processInput escape_window)
   \<and> (\<forall>k. glfwGetKey idle_window k \<noteq> GLFW_PRESS)
   \<and> \<not> should_close idle_window
   \<and> \<not> should_close (processInput idle_window)
   \<and> processInput idle_window = idle_window"
proof -
  have e: "glfwGetKey escape_window GLFW_KEY_ESCAPE = GLFW_PRESS" "\<not> should_close escape_window"
    by (simp_all add: escape_window_def idle_window_def glfwGetKey_def)
  have i: "\<forall>k. glfwGetKey idle_window k \<noteq> GLFW_PRESS" "\<not> should_close idle_window"
    by (simp_all add: idle_window_def glfwGetKey_def)
  from processInput_close_flag [of escape_window] processInput_close_flag [of idle_window] e i
  show ?thesis by blast
qed

text \<open>
  C10. The close flag only ever goes from false to true: \<open>processInput\<close> leaves the
  window as it is or sets the flag; a set flag stays set through \<open>processInput\<close>, through
  the events of \<open>glfwPollEvents\<close> and so through a whole turn of the loop. The loop does
  not run a frame once it sees the flag: entered with the flag set it returns at once
  with nothing changed, after the frame that sets the flag it returns whatever frames
  would follow, and whenever it returns the flag is set.
\<close>

theorem close_flag_monotone:
  "(processInput w = w \<or> processInput w = w\<lparr>should_close := True\<rparr>)
   \<and> (should_close w \<longrightarrow> should_close (processInput w))
   \<and> (should_close w \<longrightarrow> should_close (fst (glfwPollEvents evs w s)))
   \<and> (should_close w \<longrightarrow> should_close (fst (frame_body w s f)))
   \<and> (should_close w \<longrightarrow> render_frames w s fs = Some (w, s))
   \<and> (\<not> should_close w \<and> should_close (fst (frame_body w s f))
        \<longrightarrow> render_frames w s (f # fs) = Some (frame_body w s f))
   \<and> (\<forall>w' s'. render_frames w s fs = Some (w', s') \<longrightarrow> should_close w')"
proof -
  have "\<not> should_close w \<and> should_close (fst (frame_body w s f))
        \<longrightarrow> render_frames w s (f # fs) = Some (frame_body w s f)"
    by (cases "frame_body w s f") (simp add: glfwWindowShouldClose_def render_frames_closed)
  then show ?thesis
    using render_frames_exit [of w s fs]
    by (simp add: processInput_cases glfwPollEvents_keeps_flag frame_body_keeps_flag
        render_frames_closed)
qed

text \<open>
  C10 on a window whose flag is set, and on an open window that gets a close request in
  its first frame.
\<close>

theorem close_flag_monotone_witness:
  "should_close (glfwSetWindowShouldClose idle_window True)
   \<and> should_close (processInput (glfwSetWindowShouldClose idle_window True))
   \<and> should_close (fst (glfwPollEvents [Key_event GLFW_KEY_ESCAPE GLFW_RELEASE]
        (glfwSetWindowShouldClose idle_window True) initial_machine))
   \<and> should_close (fst (frame_body (glfwSetWindowShouldClose idle_window True) initial_machine escape_frame))
   \<and> render_frames (glfwSetWindowShouldClose idle_window True) initial_machine [escape_frame] =
       Some (glfwSetWindowShouldClose idle_window True, initial_machine)
   \<and> \<not> should_close idle_window
   \<and> should_close (fst (frame_body idle_window initial_machine closing_frame))
   \<and> render_frames idle_window initial_machine [closing_frame, escape_frame] =
       Some (frame_body idle_window initial_machine closing_frame)
   \<and> should_close (fst (the (render_frames idle_window initial_machine [closing_frame, escape_frame])))"
proof -
  have c: "should_close (glfwSetWindowShouldClose idle_window True)"
    by (simp add: glfwSetWindowShouldClose_def)
  have i: "\<not> should_close idle_window"
    by (simp add: idle_window_def)
  have f: "should_close (fst (frame_body idle_window initial_machine closing_frame))"
    by (simp add: frame_body_def Let_def closing_frame_def glfwPollEvents_def)
  note a = close_flag_monotone [of "glfwSetWindowShouldClose idle_window True"
      "[Key_event GLFW_KEY_ESCAPE GLFW_RELEASE]" initial_machine escape_frame "[escape_frame]"]
  note b = close_flag_monotone [of idle_window "[]" initial_machine closing_frame "[escape_frame]"]
  from b i f
  have r: "render_frames idle_window initial_machine [closing_frame, escape_frame] =
       Some (frame_body idle_window initial_machine closing_frame)"
    by blast
  from a b c i f r show ?thesis by simp
qed

subsection \<open>Initialisation\<close>

text \<open>
  C9. \<open>initlializeGLFW\<close> returns the null handle exactly when the window cannot be
  created or the GL loader fails, and it writes to standard error exactly then (one
  message, naming the failure). When both succeed it returns the handle of a window of
  800 by 600 with the framebuffer-size callback installed, and logs nothing.
\<close>

theorem initlializeGLFW_result:
  "let (handle, s') = initlializeGLFW env s in
     (handle = None) = (\<not> window_creatable env \<or> \<not> loader_ok env)
   \<and> (cerr s' \<noteq> cerr s) = (handle = None)
   \<and> cout s' = cout s
   \<and> (\<not> window_creatable env \<longrightarrow> cerr s' = cerr s @ [''Failed to create GLFW window''])
   \<and> (window_creatable env \<and> \<not> loader_ok env \<longrightarrow> cerr s' = cerr s @ [''failed to initialize GLAD''])
   \<and> (window_creatable env \<and> loader_ok env \<longrightarrow>
        s' = s
      \<and> handle = Some \<lparr>win_width = 800, win_height = 600, win_title = ''LearnOpenGL'',
                        should_close = False, key_state = (\<lambda>_. GLFW_RELEASE),
                        framebuffer_size_cb = Some Framebuffer_size_callback\<rparr>)"
  by (simp add: initlializeGLFW_def glfwCreateWindow_def gladLoadGLLoader_def
      glfwSetFramebufferSizeCallback_def print_cerr_def glfwTerminate_def Let_def
      SCR_WIDTH_def SCR_HEIGHT_def)

text \<open>C9 where the window fails, where the loader fails, and where both succeed.\<close>

theorem initlializeGLFW_result_witness:
  "\<not> window_creatable no_window_env
   \<and> fst (initlializeGLFW no_window_env initial_machine) = None
   \<and> cerr (snd (initlializeGLFW no_window_env initial_machine)) = [''Failed to create GLFW window'']
   \<and> window_creatable no_loader_env \<and> \<not> loader_ok no_loader_env
   \<and> fst (initlializeGLFW no_loader_env initial_machine) = None
   \<and> cerr (snd (initlializeGLFW no_loader_env initial_machine)) = [''failed to initialize GLAD'']
   \<and> window_creatable good_env \<and> loader_ok good_env
   \<and> fst (initlializeGLFW good_env initial_machine) = Some idle_window
   \<and> cerr (snd (initlializeGLFW good_env initial_machine)) = []"
proof -
  have e: "\<not> window_creatable no_window_env"
    "window_creatable no_loader_env" "\<not> loader_ok no_loader_env"
    "window_creatable good_env" "loader_ok good_env"
    by (simp_all add: no_window_env_def no_loader_env_def good_env_def)
  have c: "cerr initial_machine = []"
    by (simp add: initial_machine_def)
  have w: "idle_window = \<lparr>win_width = 800, win_height = 600, win_title = ''LearnOpenGL'',
                        should_close = False, key_state = (\<lambda>_. GLFW_RELEASE),
                        framebuffer_size_cb = Some Framebuffer_size_callback\<rparr>"
    by (simp add: idle_window_def SCR_WIDTH_def SCR_HEIGHT_def)
  from initlializeGLFW_result [of no_window_env initial_machine]
    initlializeGLFW_result [of no_loader_env initial_machine]
    initlializeGLFW_result [of good_env initial_machine] e c w
  show ?thesis by (auto simp: split_def Let_def)
qed

subsection \<open>Vertex attributes\<close>

text \<open>
  C4 against the code. Both attributes have a stride of 5 floats, the position (3 floats)
  is at offset 0, and stride times the vertex count is the size of the buffer, 80 bytes.
  But the texture coordinate (2 floats) sits at byte 12 of each vertex and is declared
  at byte 24: the offset of a layout of 8 floats per vertex. So the attribute of vertex
  0 reads (-0.5, 0) from the second row where the data has (1, 1), and that of vertex 3
  reads past the end of the buffer.
\<close>

theorem texcoord_attribute_offset_mismatch:
  "attrib_stride position_attrib = 5 * sizeof_float
   \<and> attrib_stride texcoord_attrib = 5 * sizeof_float
   \<and> attrib_size position_attrib = 3 \<and> attrib_offset position_attrib = 0
   \<and> attrib_size texcoord_attrib = 2
   \<and> attrib_stride position_attrib * vertex_count = sizeof_vertices
   \<and> sizeof_vertices = 80
   \<and> texcoord_layout_offset = 12
   \<and> attrib_offset texcoord_attrib = 24
   \<and> attrib_offset texcoord_attrib \<noteq> texcoord_layout_offset
   \<and> vertex_texcoord 0 = [1, 1]
   \<and> fetch_attrib vertices texcoord_attrib 0 = Some [-1/2, 0]
   \<and> fetch_attrib vertices texcoord_attrib 3 = None"
  by (simp add: position_attrib_def texcoord_attrib_def sizeof_float_def vertex_count_def
      sizeof_vertices_def texcoord_layout_offset_def vertex_texcoord_def fetch_attrib_def
      vertices_def floats_per_vertex_def position_components_def texcoord_components_def)

subsection \<open>Lifecycle of the GPU objects\<close>

text \<open>
  C3. In every run of \<open>main\<close> that returns, the program has five GPU objects: the shader
  program, the texture, the vertex array, the vertex buffer and the index buffer. Each
  is created exactly once, before \<open>renderLoop\<close> is called, and none is released before
  it. From the call of \<open>renderLoop\<close> to its return nothing is created and nothing
  released. After the return nothing is created, and each of the five is released
  exactly once: the vertex array and the vertex buffer by their \<open>glDelete\<close> calls, the
  shader program, the texture and the index buffer by \<open>glfwTerminate\<close>, which destroys
  the context; no object is left.
\<close>

theorem main_lifecycle:
  assumes "returned (main env frames)"
  shows "\<exists>l w sl s.
      main_setup env = Inr l
    \<and> renderLoop (l_window l) (l_VAO l) (l_textures l) frames (l_machine l) = Some (Inr (w, sl))
    \<and> main env frames = Some (Inr (0, s))
    \<and> created (l_machine l) =
        [Shader_program, Texture (hd (l_textures l)), Vertex_array (l_VAO l),
         Buffer (l_VBO l), Buffer (l_EBO l)]
    \<and> distinct (created (l_machine l))
    \<and> released (l_machine l) = []
    \<and> created sl = created (l_machine l)
    \<and> released sl = []
    \<and> created s = created (l_machine l)
    \<and> released s =
        [Vertex_array (l_VAO l), Buffer (l_VBO l), Shader_program,
         Texture (hd (l_textures l)), Buffer (l_EBO l)]
    \<and> distinct (released s)
    \<and> set (released s) = set (created s)
    \<and> live_objects s = []"
proof -
  from returned_main [OF assms] obtain l w sl where ok: "window_creatable env" "loader_ok env"
    and l: "main_setup env = Inr l"
    and r: "renderLoop (l_window l) (l_VAO l) (l_textures l) frames (l_machine l) = Some (Inr (w, sl))"
    and m: "main env frames = Some (Inr (main_teardown l sl))"
    by blast
  from main_setup_ok [OF ok] l obtain m0 where
    l_eq: "l = \<lparr>l_window = idle_window, l_textures = [1], l_VAO = 1, l_VBO = 1, l_EBO = 2,
                l_machine = m0\<rparr>"
    and c0: "created m0 = [Shader_program, Texture 1, Vertex_array 1, Buffer 1, Buffer 2]"
    and r0: "released m0 = []"
    by auto
  have loc: "l_textures l = [1]" "l_VAO l = 1" "l_VBO l = 1" "l_EBO l = 2" "l_machine l = m0"
    by (simp_all add: l_eq)
  have before: "created (l_machine l) =
        [Shader_program, Texture (hd (l_textures l)), Vertex_array (l_VAO l),
         Buffer (l_VBO l), Buffer (l_EBO l)]"
      "distinct (created (l_machine l))" "released (l_machine l) = []"
    by (simp_all add: loc c0 r0)
  have during: "created sl = created (l_machine l)" "released sl = []"
    using renderLoop_objects [OF r] by (simp_all add: loc r0)
  have csl: "created sl = [Shader_program, Texture 1, Vertex_array 1, Buffer 1, Buffer 2]"
    and rsl: "released sl = []"
    using during by (simp_all add: loc c0)
  let ?s = "snd (main_teardown l sl)"
  note td = main_teardown_objects [OF csl rsl loc(2) loc(3)]
  have after: "created ?s = created (l_machine l)"
      "released ?s =
        [Vertex_array (l_VAO l), Buffer (l_VBO l), Shader_program,
         Texture (hd (l_textures l)), Buffer (l_EBO l)]"
      "distinct (released ?s)" "set (released ?s) = set (created ?s)" "live_objects ?s = []"
    using td by (auto simp: loc c0 csl)
  have "main_teardown l sl = (0, ?s)"
    using td(1) by (cases "main_teardown l sl") simp
  with m have m': "main env frames = Some (Inr (0, ?s))" by simp
  from l r m' before during after show ?thesis by blast
qed

text \<open>C3 on the run in which the window is created and closed in the first frame.\<close>

theorem main_lifecycle_witness:
  "returned (main good_env [closing_frame])
   \<and> (\<exists>l w sl s.
      main_setup good_env = Inr l
    \<and> renderLoop (l_window l) (l_VAO l) (l_textures l) [closing_frame] (l_machine l) = Some (Inr (w, sl))
    \<and> main good_env [closing_frame] = Some (Inr (0, s))
    \<and> created (l_machine l) =
        [Shader_program, Texture (hd (l_textures l)), Vertex_array (l_VAO l),
         Buffer (l_VBO l), Buffer (l_EBO l)]
    \<and> distinct (created (l_machine l))
    \<and> released (l_machine l) = []
    \<and> created sl = created (l_machine l)
    \<and> released sl = []
    \<and> created s = created (l_machine l)
    \<and> released s =
        [Vertex_array (l_VAO l), Buffer (l_VBO l), Shader_program,
         Texture (hd (l_textures l)), Buffer (l_EBO l)]
    \<and> distinct (released s)
    \<and> set (released s) = set (created s)
    \<and> live_objects s = [])"
proof -
  have h: "returned (main good_env [closing_frame])"
    by (rule sample_run_returns)
  from main_lifecycle [OF h] h show ?thesis by blast
qed

subsection \<open>Geometry\<close>

text \<open>
  C5. The index buffer is consistent with the vertex data: it has 6 entries, every entry
  is a valid vertex number (at least 0 and less than the vertex count, which is 4), and
  the two triangles together use each of the 4 vertices.
\<close>

theorem indices_consistent:
  "length indices = 6 \<and> vertex_count = 4
   \<and> list_all (\<lambda>i. 0 \<le> i \<and> i < int vertex_count) indices
   \<and> set (take 3 indices) \<union> set (drop 3 indices) = {0, 1, 2, 3}"
  by (auto simp: indices_def vertex_count_def vertices_def floats_per_vertex_def
      position_components_def texcoord_components_def)

end
